theory Spec2Isabelle
  imports Complex_Main "HOL-Library.Signed_Division"
begin

section \<open>Snake: data model (types.ts, lines 1-45)\<close>

text \<open>
  The numbers of the source are JavaScript doubles. Grid coordinates, scores and food
  points only ever hold integers and are modelled as \<open>int\<close>; the values returned by
  \<open>Math.random()\<close> are modelled as reals.  Record fields are global constants in HOL, so
  the fields \<open>x\<close> and \<open>y\<close> of \<open>Point\<close> are called \<open>px\<close> and \<open>py\<close>, and the field
  \<open>type\<close> of \<open>Food\<close> is called \<open>ftype\<close>.
\<close>

datatype Direction = UP | DOWN | LEFT | RIGHT

datatype Difficulty = easy | normal | hard | extreme

datatype FoodType = apple | banana | meat | berry

datatype SnakeColor = green | blue | purple | orange | pink

record Point =
  px :: int
  py :: int

record Food = Point +
  ftype :: FoodType
  points :: int

type_synonym Wall = Point

record GameState =
  snake :: "Point list"
  foods :: "Food list"
  walls :: "Wall list"
  direction :: Direction
  nextDirection :: Direction
  score :: int
  highScore :: int
  isGameOver :: bool
  isPaused :: bool
  difficulty :: Difficulty
  gridSize :: int
  snakeColor :: SnakeColor

fun SPEEDS :: "Difficulty \<Rightarrow> int" where
  "SPEEDS easy = 150"
| "SPEEDS normal = 100"
| "SPEEDS hard = 70"
| "SPEEDS extreme = 70"

fun FOOD_POINTS :: "FoodType \<Rightarrow> int" where
  "FOOD_POINTS apple = 1"
| "FOOD_POINTS banana = 2"
| "FOOD_POINTS meat = 3"
| "FOOD_POINTS berry = 1"

section \<open>Snake: engine (Snake.tsx)\<close>

definition GRID_SIZE :: int where
  "GRID_SIZE = 20"

definition INITIAL_SNAKE :: "Point list" where
  "INITIAL_SNAKE = [\<lparr>px = 10, py = 10\<rparr>]"

definition WALL_SPAWN_SCORE :: int where
  "WALL_SPAWN_SCORE = 10"

definition MULTI_FOOD_SCORE :: int where
  "MULTI_FOOD_SCORE = 5"

text \<open>
  The loop condition of \<open>getRandomPosition\<close> (lines 25-27): the three \<open>some\<close> tests,
  on the snake, the foods and the walls.
\<close>

definition occupied :: "Point \<Rightarrow> Point list \<Rightarrow> Food list \<Rightarrow> Wall list \<Rightarrow> bool" where
  "occupied position snake' foods' walls' =
     (list_ex (\<lambda>segment. px segment = px position \<and> py segment = py position) snake' \<or>
      list_ex (\<lambda>food. px food = px position \<and> py food = py position) foods' \<or>
      list_ex (\<lambda>wall. px wall = px position \<and> py wall = py position) walls')"

text \<open>
  \<open>Math.random()\<close> is a list of the draws still to come, each a real of \<open>[0, 1)\<close>.
  \<open>getRandomPosition\<close> is a do-while that takes two draws per round and repeats while
  the cell is occupied; nothing bounds the number of rounds.  The result \<open>None\<close> says that
  the loop has not left with the draws it was given.
\<close>

fun getRandomPosition ::
  "real list \<Rightarrow> Point list \<Rightarrow> Food list \<Rightarrow> Wall list \<Rightarrow> (Point \<times> real list) option" where
  "getRandomPosition (r1 # r2 # rs) snake' foods' walls' =
     (let position = \<lparr>px = \<lfloor>r1 * real_of_int GRID_SIZE\<rfloor>, py = \<lfloor>r2 * real_of_int GRID_SIZE\<rfloor>\<rparr>
      in if occupied position snake' foods' walls'
         then getRandomPosition rs snake' foods' walls'
         else Some (position, rs))"
| "getRandomPosition _ snake' foods' walls' = None"

text \<open>
  The \<open>for\<close> loop of \<open>getRandomFoodType\<close> over the weights, with its running sum; the
  sums are exact here, where those of the program are rounded doubles.
\<close>

fun pickType :: "real \<Rightarrow> real \<Rightarrow> (FoodType \<times> real) list \<Rightarrow> FoodType" where
  "pickType random acc [] = apple"
| "pickType random acc ((t, w) # rest) =
     (if random < acc + w then t else pickType random (acc + w) rest)"

definition getRandomFoodType :: "real list \<Rightarrow> (FoodType \<times> real list) option" where
  "getRandomFoodType rs =
     (case rs of
        [] \<Rightarrow> None
      | random # rs' \<Rightarrow>
          Some (pickType random 0 [(apple, 0.4), (banana, 0.3), (meat, 0.2), (berry, 0.1)], rs'))"

definition createFood ::
  "real list \<Rightarrow> Point list \<Rightarrow> Food list \<Rightarrow> Wall list \<Rightarrow> (Food \<times> real list) option" where
  "createFood rs snake' foods' walls' =
     (case getRandomPosition rs snake' foods' walls' of
        None \<Rightarrow> None
      | Some (position, rs1) \<Rightarrow>
          (case getRandomFoodType rs1 of
             None \<Rightarrow> None
           | Some (type, rs2) \<Rightarrow>
               Some (\<lparr>px = px position, py = py position,
                      ftype = type, points = FOOD_POINTS type\<rparr>, rs2)))"

definition createWall ::
  "real list \<Rightarrow> Point list \<Rightarrow> Food list \<Rightarrow> Wall list \<Rightarrow> (Wall \<times> real list) option" where
  "createWall rs snake' foods' walls' = getRandomPosition rs snake' foods' walls'"

definition createBorderWalls :: "Wall list" where
  "createBorderWalls =
     concat (map (\<lambda>i. [\<lparr>px = i, py = 0\<rparr>, \<lparr>px = i, py = GRID_SIZE - 1\<rparr>,
                        \<lparr>px = 0, py = i\<rparr>, \<lparr>px = GRID_SIZE - 1, py = i\<rparr>])
                 [0 .. GRID_SIZE - 1])"

text \<open>
  \<open>initialState\<close> is a module constant whose one food is drawn when the module loads.
  The functions that spread it (\<open>resetGame\<close>, \<open>handleDifficultyChange\<close>) take the
  constant as their argument \<open>init\<close>.
\<close>

definition initialState :: "real list \<Rightarrow> GameState option" where
  "initialState rs =
     (case createFood rs INITIAL_SNAKE [] [] of
        None \<Rightarrow> None
      | Some (food, rs') \<Rightarrow>
          Some \<lparr>snake = INITIAL_SNAKE, foods = [food], walls = [],
                direction = RIGHT, nextDirection = RIGHT, score = 0, highScore = 0,
                isGameOver = False, isPaused = False, difficulty = normal,
                gridSize = GRID_SIZE, snakeColor = green\<rparr>)"

text \<open>
  The \<open>switch\<close> of \<open>moveSnake\<close> (lines 97-110).  JavaScript's \<open>%\<close> takes the sign of the
  dividend: it is \<open>smod\<close>.
\<close>

fun stepHead :: "Direction \<Rightarrow> Point \<Rightarrow> Point" where
  "stepHead UP head = head\<lparr>py := (py head - 1 + GRID_SIZE) smod GRID_SIZE\<rparr>"
| "stepHead DOWN head = head\<lparr>py := (py head + 1) smod GRID_SIZE\<rparr>"
| "stepHead LEFT head = head\<lparr>px := (px head - 1 + GRID_SIZE) smod GRID_SIZE\<rparr>"
| "stepHead RIGHT head = head\<lparr>px := (px head + 1) smod GRID_SIZE\<rparr>"

text \<open>The two collision tests of \<open>moveSnake\<close>: line 113, and lines 118-121.\<close>

definition hitsBorder :: "GameState \<Rightarrow> Point \<Rightarrow> bool" where
  "hitsBorder state head =
     (difficulty state = extreme \<and>
      (px head = 0 \<or> px head = GRID_SIZE - 1 \<or> py head = 0 \<or> py head = GRID_SIZE - 1))"

definition hitsBodyOrWall :: "GameState \<Rightarrow> Point \<Rightarrow> bool" where
  "hitsBodyOrWall state head =
     (list_ex (\<lambda>segment. px segment = px head \<and> py segment = py head) (snake state) \<or>
      list_ex (\<lambda>wall. px wall = px head \<and> py wall = py head) (walls state))"

text \<open>\<open>Array.prototype.findIndex\<close>; \<open>None\<close> is its \<open>-1\<close>.\<close>

fun findIndex :: "('a \<Rightarrow> bool) \<Rightarrow> 'a list \<Rightarrow> nat option" where
  "findIndex P [] = None"
| "findIndex P (a # as) = (if P a then Some 0 else map_option Suc (findIndex P as))"

text \<open>\<open>foods.filter((_, i) => i !== foodIndex)\<close>\<close>

definition removeIndex :: "nat \<Rightarrow> 'a list \<Rightarrow> 'a list" where
  "removeIndex foodIndex xs = map snd (filter (\<lambda>(i, _). i \<noteq> foodIndex) (enumerate 0 xs))"

text \<open>
  The loop of lines 136-138: \<open>for (let i = newFoods.length; i < foodCount; i++)\<close>, each
  round pushing a food created against the foods pushed so far.
\<close>

function pushFoods ::
  "int \<Rightarrow> int \<Rightarrow> real list \<Rightarrow> Point list \<Rightarrow> Food list \<Rightarrow> Wall list
     \<Rightarrow> (Food list \<times> real list) option" where
  "pushFoods i foodCount rs newSnake newFoods walls' =
     (if i < foodCount
      then (case createFood rs newSnake newFoods walls' of
              None \<Rightarrow> None
            | Some (food, rs') \<Rightarrow>
                pushFoods (i + 1) foodCount rs' newSnake (newFoods @ [food]) walls')
      else Some (newFoods, rs))"
  by pat_completeness auto
termination
  by (relation "measure (\<lambda>(i, foodCount, _). nat (foodCount - i))") auto

declare pushFoods.simps [simp del]

text \<open>
  Lines 128-154, the branch taken when \<open>findIndex\<close> has found a food under the new head.
  It returns the new foods, walls and score.
\<close>

definition eatFood ::
  "real list \<Rightarrow> GameState \<Rightarrow> Point list \<Rightarrow> nat \<Rightarrow> (Food list \<times> Wall list \<times> int) option" where
  "eatFood rs state newSnake foodIndex =
     (let eatenFood = foods state ! foodIndex;
          newFoods = removeIndex foodIndex (foods state);
          newScore = score state + points eatenFood
      in case (if newScore \<ge> MULTI_FOOD_SCORE
               then pushFoods (int (length newFoods)) (min 3 (newScore div MULTI_FOOD_SCORE))
                      rs newSnake newFoods (walls state)
               else map_option (\<lambda>(food, rs'). (newFoods @ [food], rs'))
                      (createFood rs newSnake newFoods (walls state))) of
           None \<Rightarrow> None
         | Some (newFoods', rs1) \<Rightarrow>
             (if difficulty state \<noteq> extreme \<and> newScore \<ge> WALL_SPAWN_SCORE \<and>
                 newScore smod WALL_SPAWN_SCORE = 0
              then map_option (\<lambda>(wall, rs'). (newFoods', walls state @ [wall], newScore))
                     (createWall rs1 newSnake newFoods' (walls state))
              else Some (newFoods', walls state, newScore)))"

text \<open>
  One tick.  The updater functions of the two \<open>setState\<close> calls are applied to the state
  the tick was computed from.  On an empty snake the head's coordinates are \<open>NaN\<close> or
  \<open>undefined\<close>: no comparison with them holds, so nothing collides, no food is found,
  and the head is pushed and popped again.
\<close>

definition moveSnake :: "real list \<Rightarrow> GameState \<Rightarrow> GameState option" where
  "moveSnake rs state =
     (case snake state of
        [] \<Rightarrow> Some (state\<lparr>direction := nextDirection state\<rparr>)
      | h # _ \<Rightarrow>
          (let head = stepHead (nextDirection state) h in
           if hitsBorder state head then Some (state\<lparr>isGameOver := True\<rparr>)
           else if hitsBodyOrWall state head then Some (state\<lparr>isGameOver := True\<rparr>)
           else
             (let newSnake = head # snake state in
              case findIndex (\<lambda>food. px food = px head \<and> py food = py head) (foods state) of
                Some foodIndex \<Rightarrow>
                  (case eatFood rs state newSnake foodIndex of
                     None \<Rightarrow> None
                   | Some (newFoods, newWalls, newScore) \<Rightarrow>
                       Some (state\<lparr>foods := newFoods, walls := newWalls, score := newScore,
                                   highScore := max newScore (highScore state),
                                   snake := newSnake, direction := nextDirection state\<rparr>))
              | None \<Rightarrow>
                  Some (state\<lparr>snake := butlast newSnake, direction := nextDirection state\<rparr>))))"

text \<open>The table \<open>keyDirections\<close> of \<open>handleKeyDown\<close>; \<open>None\<close> for a key it does not hold.\<close>

definition keyDirections :: "string \<Rightarrow> Direction option" where
  "keyDirections key =
     (if key = ''ArrowUp'' then Some UP
      else if key = ''ArrowDown'' then Some DOWN
      else if key = ''ArrowLeft'' then Some LEFT
      else if key = ''ArrowRight'' then Some RIGHT
      else if key = ''w'' then Some UP
      else if key = ''s'' then Some DOWN
      else if key = ''a'' then Some LEFT
      else if key = ''d'' then Some RIGHT
      else None)"

fun opposites :: "Direction \<Rightarrow> Direction" where
  "opposites UP = DOWN"
| "opposites DOWN = UP"
| "opposites LEFT = RIGHT"
| "opposites RIGHT = LEFT"

definition handleDirectionClick :: "Direction \<Rightarrow> GameState \<Rightarrow> GameState" where
  "handleDirectionClick direction' state =
     (if isGameOver state then state
      else if opposites direction' \<noteq> direction state
           then state\<lparr>nextDirection := direction'\<rparr>
           else state)"

definition handleKeyDown :: "string \<Rightarrow> GameState \<Rightarrow> GameState" where
  "handleKeyDown key state =
     (if isGameOver state then state
      else case keyDirections key of
             None \<Rightarrow> state
           | Some newDirection \<Rightarrow>
               (if opposites newDirection \<noteq> direction state
                then state\<lparr>nextDirection := newDirection\<rparr>
                else state))"

definition togglePause :: "GameState \<Rightarrow> GameState" where
  "togglePause prev = prev\<lparr>isPaused := \<not> isPaused prev\<rparr>"

definition resetGame :: "GameState \<Rightarrow> GameState \<Rightarrow> GameState" where
  "resetGame init state =
     init\<lparr>highScore := highScore state, difficulty := difficulty state,
          snakeColor := snakeColor state,
          walls := (if difficulty state = extreme then createBorderWalls else [])\<rparr>"

definition handleDifficultyChange :: "GameState \<Rightarrow> Difficulty \<Rightarrow> GameState \<Rightarrow> GameState" where
  "handleDifficultyChange init difficulty' prev =
     init\<lparr>difficulty := difficulty', highScore := highScore prev,
          snakeColor := snakeColor prev,
          walls := (if difficulty' = extreme then createBorderWalls else [])\<rparr>"

text \<open>
  The states of a session that starts from the module constant \<open>init\<close>: every event
  handler and the tick.  Each of them runs on the state of the latest render: the
  dependency lists of \<open>moveSnake\<close> and \<open>handleKeyDown\<close> name the fields they read, up to
  the score, which only changes together with the foods.  The scheduler of lines 387-417
  only ticks while the game is neither paused nor over; a tick is allowed in every state
  here, which covers at least the states the program goes through.
\<close>

inductive reachable :: "GameState \<Rightarrow> GameState \<Rightarrow> bool" for init :: GameState where
  r_init: "reachable init init"
| r_tick: "reachable init s \<Longrightarrow> moveSnake rs s = Some s' \<Longrightarrow> reachable init s'"
| r_key: "reachable init s \<Longrightarrow> reachable init (handleKeyDown key s)"
| r_click: "reachable init s \<Longrightarrow> reachable init (handleDirectionClick d s)"
| r_pause: "reachable init s \<Longrightarrow> reachable init (togglePause s)"
| r_reset: "reachable init s \<Longrightarrow> reachable init (resetGame init s)"
| r_difficulty: "reachable init s \<Longrightarrow> reachable init (handleDifficultyChange init d s)"
| r_color: "reachable init s \<Longrightarrow> reachable init (s\<lparr>snakeColor := c\<rparr>)"

section \<open>Flappy: data model and engine (types.ts, lines 76-485)\<close>

text \<open>
  The second \<open>Difficulty\<close> and \<open>GameState\<close> of the sources are those of the Flappy game.
  Their names are taken by the Snake types above: the difficulty is \<open>FDifficulty\<close> with
  the constructors \<open>Easy\<close>, \<open>Normal\<close>, \<open>Hard\<close>, the state is \<open>FlappyState\<close>, and the fields
  that both states have carry the prefix \<open>f_\<close>.  The field \<open>y\<close> of \<open>Bird\<close> is \<open>bird_y\<close>, the
  field \<open>x\<close> of \<open>Pipe\<close> is \<open>pipe_x\<close>.  Doubles are modelled as reals: the arithmetic of the
  model is exact where that of the program rounds.
\<close>

datatype FDifficulty = Easy | Normal | Hard

record Bird =
  bird_y :: real
  velocity :: real
  rotation :: real

record Pipe =
  pipe_x :: real
  topHeight :: real
  passed :: bool

record FlappyState =
  bird :: Bird
  pipes :: "Pipe list"
  f_score :: int
  f_highScore :: int
  isPlaying :: bool
  f_isGameOver :: bool
  f_difficulty :: FDifficulty

definition CANVAS_WIDTH :: real where
  "CANVAS_WIDTH = 360"

definition CANVAS_HEIGHT :: real where
  "CANVAS_HEIGHT = 640"

definition BIRD_WIDTH :: real where
  "BIRD_WIDTH = 34"

definition BIRD_HEIGHT :: real where
  "BIRD_HEIGHT = 24"

definition PIPE_WIDTH :: real where
  "PIPE_WIDTH = 52"

definition PIPE_GAP :: real where
  "PIPE_GAP = 160"

definition GRAVITY :: real where
  "GRAVITY = 0.4"

definition FLAP_STRENGTH :: real where
  "FLAP_STRENGTH = - 7"

definition PIPE_SPEED :: real where
  "PIPE_SPEED = 2"

record Settings =
  pipeGap :: real
  pipeInterval :: real
  gravity :: real

fun DIFFICULTY_SETTINGS :: "FDifficulty \<Rightarrow> Settings" where
  "DIFFICULTY_SETTINGS Easy =
     \<lparr>pipeGap = PIPE_GAP + 40, pipeInterval = 180, gravity = GRAVITY * 0.8\<rparr>"
| "DIFFICULTY_SETTINGS Normal =
     \<lparr>pipeGap = PIPE_GAP, pipeInterval = 150, gravity = GRAVITY\<rparr>"
| "DIFFICULTY_SETTINGS Hard =
     \<lparr>pipeGap = PIPE_GAP - 20, pipeInterval = 120, gravity = GRAVITY * 1.2\<rparr>"

definition initialBird :: Bird where
  "initialBird = \<lparr>bird_y = CANVAS_HEIGHT / 2, velocity = 0, rotation = 0\<rparr>"

text \<open>\<open>createPipe\<close>, with the value \<open>random\<close> of its call of \<open>Math.random()\<close>.\<close>

definition createPipe :: "real \<Rightarrow> Pipe" where
  "createPipe random =
     \<lparr>pipe_x = CANVAS_WIDTH,
      topHeight = random * (CANVAS_HEIGHT - PIPE_GAP - 100) + 50,
      passed = False\<rparr>"

definition f_initialState :: FlappyState where
  "f_initialState =
     \<lparr>bird = initialBird, pipes = [], f_score = 0, f_highScore = 0,
      isPlaying = False, f_isGameOver = False, f_difficulty = Normal\<rparr>"

text \<open>The new bird of \<open>update\<close> (lines 259-264): each field is computed from \<open>prev.bird\<close>.\<close>

definition updateBird :: "Settings \<Rightarrow> Bird \<Rightarrow> Bird" where
  "updateBird settings prevBird =
     \<lparr>bird_y = bird_y prevBird + velocity prevBird,
      velocity = velocity prevBird + gravity settings,
      rotation = min (pi / 2) (max (- pi / 4) (velocity prevBird * 0.1))\<rparr>"

text \<open>
  The loop of lines 299-330 over the pipes, for a bird box with the given top and bottom.
  It returns whether a pipe was hit, and the pipes and the score as the loop left them:
  the pipes before the one hit have been marked and counted.
\<close>

fun checkPipes :: "real \<Rightarrow> real \<Rightarrow> real \<Rightarrow> Pipe list \<Rightarrow> int \<Rightarrow> bool \<times> Pipe list \<times> int" where
  "checkPipes birdTop birdBottom gap [] sc = (False, [], sc)"
| "checkPipes birdTop birdBottom gap (pipe # rest) sc =
     (if (CANVAS_WIDTH / 4 + BIRD_WIDTH / 2 > pipe_x pipe \<and>
          CANVAS_WIDTH / 4 - BIRD_WIDTH / 2 < pipe_x pipe + PIPE_WIDTH) \<and>
         (birdTop < topHeight pipe \<or> birdBottom > topHeight pipe + gap)
      then (True, pipe # rest, sc)
      else if \<not> passed pipe \<and> pipe_x pipe + PIPE_WIDTH < CANVAS_WIDTH / 4
      then (case checkPipes birdTop birdBottom gap rest (sc + 1) of
              (hit, rest', sc') \<Rightarrow> (hit, pipe\<lparr>passed := True\<rparr> # rest', sc'))
      else (case checkPipes birdTop birdBottom gap rest sc of
              (hit, rest', sc') \<Rightarrow> (hit, pipe # rest', sc')))"

text \<open>
  One frame.  The state travels with the value of \<open>lastPipeRef\<close>; \<open>time\<close> is what
  \<open>Date.now()\<close> returns and \<open>random\<close> what \<open>Math.random()\<close> would return in \<open>createPipe\<close>.
\<close>

definition update :: "real \<Rightarrow> real \<Rightarrow> FlappyState \<times> real \<Rightarrow> FlappyState \<times> real" where
  "update time random sl =
     (case sl of (prev, lastPipe) \<Rightarrow>
        if \<not> isPlaying prev \<or> f_isGameOver prev then (prev, lastPipe)
        else
          (let settings = DIFFICULTY_SETTINGS (f_difficulty prev);
               newBird = updateBird settings (bird prev);
               moved = filter (\<lambda>pipe. pipe_x pipe + PIPE_WIDTH > 0)
                         (map (\<lambda>pipe. pipe\<lparr>pipe_x := pipe_x pipe - PIPE_SPEED\<rparr>) (pipes prev));
               spawn = (time - lastPipe > pipeInterval settings);
               newPipes = (if spawn then moved @ [createPipe random] else moved);
               lastPipe' = (if spawn then time else lastPipe);
               birdTop = bird_y newBird - BIRD_HEIGHT / 2;
               birdBottom = bird_y newBird + BIRD_HEIGHT / 2
           in if birdBottom > CANVAS_HEIGHT \<or> birdTop < 0
              then (prev\<lparr>bird := newBird, pipes := newPipes, f_isGameOver := True,
                         f_highScore := max (f_score prev) (f_highScore prev)\<rparr>, lastPipe')
              else (case checkPipes birdTop birdBottom (pipeGap settings) newPipes (f_score prev) of
                      (hit, pipes', score') \<Rightarrow>
                        if hit
                        then (prev\<lparr>bird := newBird, pipes := pipes', f_score := score',
                                   f_isGameOver := True,
                                   f_highScore := max (f_score prev) (f_highScore prev)\<rparr>,
                              lastPipe')
                        else (prev\<lparr>bird := newBird, pipes := pipes', f_score := score'\<rparr>,
                              lastPipe'))))"

definition startGame :: "real \<Rightarrow> FlappyState \<times> real \<Rightarrow> FlappyState \<times> real" where
  "startGame time sl =
     (case sl of (prev, lastPipe) \<Rightarrow>
        (f_initialState\<lparr>isPlaying := True, f_highScore := f_highScore prev,
                        f_difficulty := f_difficulty prev\<rparr>, time))"

text \<open>
  \<open>handleClick\<close> reads \<open>state\<close>, the state of the render that created the function, and
  queues updaters, which React applies to the state of the moment, \<open>prev\<close>.  The canvas's
  \<open>onClick\<close> always holds the function of the latest render, where the two are one state.
\<close>

definition handleClick ::
  "real \<Rightarrow> FlappyState \<Rightarrow> FlappyState \<times> real \<Rightarrow> FlappyState \<times> real" where
  "handleClick time state sl =
     (if f_isGameOver state then startGame time sl
      else (case (if \<not> isPlaying state then startGame time sl else sl) of
              (prev, lastPipe) \<Rightarrow>
                (prev\<lparr>bird := (bird prev)\<lparr>velocity := FLAP_STRENGTH\<rparr>\<rparr>, lastPipe)))"

text \<open>
  The key listener (lines 371-376) is memoised with an empty dependency list: it keeps
  the \<open>handleClick\<close> of the first render, whose \<open>state\<close> is \<open>initialState\<close>.
\<close>

definition f_handleKeyDown :: "string \<Rightarrow> real \<Rightarrow> FlappyState \<times> real \<Rightarrow> FlappyState \<times> real" where
  "f_handleKeyDown code time sl =
     (if code = ''Space'' then handleClick time f_initialState sl else sl)"

text \<open>
  Step 1 of the specification's tick, in the order it is written there:
  \<open>velocity += gravity\<close>, then \<open>y += velocity\<close>, then the rotation from the new velocity.
  It is what \<open>updateBird\<close> is compared with.
\<close>

definition spec_integrate :: "Settings \<Rightarrow> Bird \<Rightarrow> Bird" where
  "spec_integrate settings b =
     (let v = velocity b + gravity settings;
          y' = bird_y b + v
      in \<lparr>bird_y = y', velocity = v, rotation = min (pi / 2) (max (- pi / 4) (v * 0.1))\<rparr>)"

section \<open>Predicates of the statements\<close>

text \<open>
  A tick is terminal when one of the two collision tests of \<open>moveSnake\<close> holds of the head
  the \<open>switch\<close> has computed.
\<close>

definition collides :: "GameState \<Rightarrow> bool" where
  "collides s =
     (case snake s of
        [] \<Rightarrow> False
      | h # _ \<Rightarrow> hitsBorder s (stepHead (nextDirection s) h) \<or>
                 hitsBodyOrWall s (stepHead (nextDirection s) h))"

text \<open>The index that \<open>findIndex\<close> returns for the head the tick computes, if any.\<close>

definition eats :: "GameState \<Rightarrow> nat option" where
  "eats s =
     (case snake s of
        [] \<Rightarrow> None
      | h # _ \<Rightarrow>
          findIndex (\<lambda>food. px food = px (stepHead (nextDirection s) h) \<and>
                            py food = py (stepHead (nextDirection s) h)) (foods s))"

text \<open>
  The ticks that add a wall: not terminal, not in extreme mode, a food is eaten and the
  new score is a positive multiple of 10.
\<close>

definition spawnsWall :: "GameState \<Rightarrow> bool" where
  "spawnsWall s =
     (\<not> collides s \<and> difficulty s \<noteq> extreme \<and>
      (case eats s of
         None \<Rightarrow> False
       | Some i \<Rightarrow> 10 \<le> score s + points (foods s ! i) \<and>
                   10 dvd (score s + points (foods s ! i))))"

text \<open>The cell that two draws give (lines 20-23).\<close>

definition cellOf :: "real \<Rightarrow> real \<Rightarrow> Point" where
  "cellOf r1 r2 = \<lparr>px = \<lfloor>r1 * real_of_int GRID_SIZE\<rfloor>, py = \<lfloor>r2 * real_of_int GRID_SIZE\<rfloor>\<rparr>"





section \<open>Example states\<close>

text \<open>The module constant when the three draws of its \<open>createFood\<close> are 11/20, 1/2, 1/10.\<close>

definition ex_init :: GameState where
  "ex_init =
     \<lparr>snake = [\<lparr>px = 10, py = 10\<rparr>],
      foods = [\<lparr>px = 11, py = 10, ftype = apple, points = 1\<rparr>], walls = [],
      direction = RIGHT, nextDirection = RIGHT, score = 0, highScore = 0,
      isGameOver = False, isPaused = False, difficulty = normal,
      gridSize = 20, snakeColor = green\<rparr>"










definition ex_walled :: GameState where
  "ex_walled = ex_init\<lparr>direction := UP, nextDirection := UP, walls := [\<lparr>px = 10, py = 9\<rparr>]\<rparr>"

definition ex_over :: GameState where
  "ex_over = ex_init\<lparr>isGameOver := True\<rparr>"

text \<open>A Flappy game in flight: playing, the bird at 400 and falling at 3.\<close>

definition ex_flight :: FlappyState where
  "ex_flight =
     \<lparr>bird = \<lparr>bird_y = 400, velocity = 3, rotation = 0.26\<rparr>,
      pipes = [\<lparr>pipe_x = 200, topHeight = 240, passed = False\<rparr>],
      f_score = 2, f_highScore = 5, isPlaying = True, f_isGameOver = False,
      f_difficulty = Normal\<rparr>"

text \<open>A Flappy game just started at time 0, in normal difficulty.\<close>

definition ex_started :: "FlappyState \<times> real" where
  "ex_started = startGame 0 (f_initialState, 0)"

section \<open>Snake: lemmas\<close>









subsection \<open>The placement loop\<close>


text \<open>
  The loop returns exactly when one of the pairs of draws it reads gives a free cell: the
  source leaves the number of rounds to the random source.
\<close>

lemma getRandomPosition_returns:
  "(getRandomPosition rs sn fd wl \<noteq> None) =
   (\<exists>k. 2 * k + 1 < length rs \<and> \<not> occupied (cellOf (rs ! (2 * k)) (rs ! (2 * k + 1))) sn fd wl)"
proof (induction rs sn fd wl rule: getRandomPosition.induct)
  case (1 r1 r2 rs sn fd wl)
  show ?case
  proof (cases "occupied (cellOf r1 r2) sn fd wl")
    case False
    then have "getRandomPosition (r1 # r2 # rs) sn fd wl \<noteq> None"
      by (simp add: cellOf_def)
    moreover have "2 * 0 + 1 < length (r1 # r2 # rs) \<and>
        \<not> occupied (cellOf ((r1 # r2 # rs) ! (2 * 0)) ((r1 # r2 # rs) ! (2 * 0 + 1))) sn fd wl"
      using False by simp
    ultimately show ?thesis by blast
  next
    case True
    then have eq: "getRandomPosition (r1 # r2 # rs) sn fd wl = getRandomPosition rs sn fd wl"
      by (simp add: cellOf_def)
    have ih: "(getRandomPosition rs sn fd wl \<noteq> None) =
      (\<exists>k. 2 * k + 1 < length rs \<and> \<not> occupied (cellOf (rs ! (2 * k)) (rs ! (2 * k + 1))) sn fd wl)"
      using "1.IH" [OF refl] True by (simp add: cellOf_def)
    have "(\<exists>k. 2 * k + 1 < length (r1 # r2 # rs) \<and>
             \<not> occupied (cellOf ((r1 # r2 # rs) ! (2 * k)) ((r1 # r2 # rs) ! (2 * k + 1))) sn fd wl) =
          (\<exists>k. 2 * k + 1 < length rs \<and> \<not> occupied (cellOf (rs ! (2 * k)) (rs ! (2 * k + 1))) sn fd wl)"
      (is "?L = ?R")
    proof
      assume ?L
      then obtain k where k: "2 * k + 1 < length (r1 # r2 # rs)"
        "\<not> occupied (cellOf ((r1 # r2 # rs) ! (2 * k)) ((r1 # r2 # rs) ! (2 * k + 1))) sn fd wl"
        by blast
      with True obtain j where "k = Suc j" by (cases k) auto
      with k show ?R by (intro exI [of _ j]) simp
    next
      assume ?R
      then obtain k where "2 * k + 1 < length rs"
        "\<not> occupied (cellOf (rs ! (2 * k)) (rs ! (2 * k + 1))) sn fd wl" by blast
      then show ?L by (intro exI [of _ "Suc k"]) simp
    qed
    with eq ih show ?thesis by simp
  qed
qed simp_all

text \<open>
  While a cell of the grid is free there are draws on which the loop returns, with that
  cell; on a grid with no free cell it returns on no draws of \<open>[0, 1)\<close>.
\<close>

lemma getRandomPosition_free_cell:
  assumes "\<not> occupied \<lparr>px = a, py = b\<rparr> sn fd wl"
  shows "getRandomPosition [real_of_int a / 20, real_of_int b / 20] sn fd wl =
           Some (\<lparr>px = a, py = b\<rparr>, [])"
  using assms by (simp add: GRID_SIZE_def)

lemma cellOf_in_grid:
  assumes "0 \<le> r1" "r1 < 1" "0 \<le> r2" "r2 < 1"
  shows "0 \<le> px (cellOf r1 r2) \<and> px (cellOf r1 r2) < GRID_SIZE \<and>
         0 \<le> py (cellOf r1 r2) \<and> py (cellOf r1 r2) < GRID_SIZE"
  using assms by (simp add: cellOf_def GRID_SIZE_def floor_less_iff)

lemma getRandomPosition_full_grid:
  assumes "\<forall>a b. 0 \<le> a \<and> a < GRID_SIZE \<and> 0 \<le> b \<and> b < GRID_SIZE \<longrightarrow>
             occupied \<lparr>px = a, py = b\<rparr> sn fd wl"
    and "list_all (\<lambda>r. 0 \<le> r \<and> r < 1) rs"
  shows "getRandomPosition rs sn fd wl = None"
  using assms
proof (induction rs sn fd wl rule: getRandomPosition.induct)
  case (1 r1 r2 rs sn fd wl)
  have g: "0 \<le> px (cellOf r1 r2) \<and> px (cellOf r1 r2) < GRID_SIZE \<and>
         0 \<le> py (cellOf r1 r2) \<and> py (cellOf r1 r2) < GRID_SIZE"
    using "1.prems"(2) by (intro cellOf_in_grid) simp_all
  have "occupied \<lparr>px = \<lfloor>r1 * real_of_int GRID_SIZE\<rfloor>, py = \<lfloor>r2 * real_of_int GRID_SIZE\<rfloor>\<rparr> sn fd wl"
    using "1.prems"(1) g unfolding cellOf_def by simp
  then have occ: "occupied (cellOf r1 r2) sn fd wl"
    by (simp add: cellOf_def)
  with "1.IH" [OF refl] "1.prems" show ?case
    by (simp add: cellOf_def)
qed simp_all





subsection \<open>The three outcomes of a tick\<close>

lemma moveSnake_collides:
  "collides s \<Longrightarrow> moveSnake rs s = Some (s\<lparr>isGameOver := True\<rparr>)"
  by (auto simp: collides_def moveSnake_def Let_def split: list.splits)

lemma moveSnake_no_food:
  "\<not> collides s \<Longrightarrow> eats s = None \<Longrightarrow>
   moveSnake rs s =
     Some (s\<lparr>snake := (case snake s of [] \<Rightarrow> []
                       | h # body \<Rightarrow> stepHead (nextDirection s) h # butlast (h # body)),
             direction := nextDirection s\<rparr>)"
  by (auto simp: collides_def eats_def moveSnake_def Let_def split: list.splits)

lemma moveSnake_food:
  "\<not> collides s \<Longrightarrow> eats s = Some i \<Longrightarrow> snake s = h # body \<Longrightarrow>
   moveSnake rs s =
     (case eatFood rs s (stepHead (nextDirection s) h # h # body) i of
        None \<Rightarrow> None
      | Some (newFoods, newWalls, newScore) \<Rightarrow>
          Some (s\<lparr>foods := newFoods, walls := newWalls, score := newScore,
                  highScore := max newScore (highScore s),
                  snake := stepHead (nextDirection s) h # h # body,
                  direction := nextDirection s\<rparr>))"
  by (auto simp: collides_def eats_def moveSnake_def Let_def split: list.splits)

lemma eats_nonempty: "eats s = Some i \<Longrightarrow> \<exists>h body. snake s = h # body"
  by (cases "snake s") (auto simp: eats_def)






subsection \<open>Invariants of the reachable states\<close>




lemma opposites_neq: "opposites d \<noteq> d"
  by (cases d) simp_all

lemma opposites_sym: "(opposites a = b) = (opposites b = a)"
  by (cases a; cases b) simp_all

lemma moveSnake_directions:
  assumes "moveSnake rs s = Some s'" and "opposites (nextDirection s) \<noteq> direction s"
  shows "opposites (nextDirection s') \<noteq> direction s'"
proof (cases "collides s")
  case True
  with assms show ?thesis by (auto simp: moveSnake_collides)
next
  case False
  show ?thesis
  proof (cases "eats s")
    case None
    with False assms show ?thesis by (auto simp: moveSnake_no_food opposites_neq)
  next
    case (Some i)
    then obtain h body where hb: "snake s = h # body"
      using eats_nonempty by blast
    from assms(1) show ?thesis
      by (auto simp: moveSnake_food [OF False Some hb] opposites_neq split: option.splits)
  qed
qed

subsection \<open>The placement loop returns when the draws go on\<close>









section \<open>Snake: the claims\<close>

lemmas snake_eval =
  moveSnake_def eatFood_def removeIndex_def createFood_def createWall_def
  getRandomFoodType_def hitsBorder_def hitsBodyOrWall_def occupied_def collides_def eats_def
  spawnsWall_def GRID_SIZE_def MULTI_FOOD_SCORE_def WALL_SPAWN_SCORE_def INITIAL_SNAKE_def
  initialState_def smod_int_alt_def pushFoods.simps Let_def

text \<open>
  C10.  A tick that ends in a collision (the border in extreme mode, the body, a wall)
  returns, whatever the random draws, and its state is the state it started from with
  \<open>isGameOver\<close> set: the snake, the foods, the walls, the score, the high score,
  \<open>direction\<close> and \<open>nextDirection\<close> are those of before.
\<close>

theorem terminal_tick_frame:
  assumes "collides s"
  shows "\<exists>s'. moveSnake rs s = Some s' \<and> s' = s\<lparr>isGameOver := True\<rparr> \<and> isGameOver s' \<and>
           snake s' = snake s \<and> foods s' = foods s \<and> walls s' = walls s \<and>
           score s' = score s \<and> highScore s' = highScore s \<and>
           direction s' = direction s \<and> nextDirection s' = nextDirection s"
  using moveSnake_collides [OF assms, of rs] by simp

theorem terminal_tick_frame_witness:
  "collides ex_walled \<and> moveSnake [] ex_walled = Some (ex_walled\<lparr>isGameOver := True\<rparr>) \<and>
   map_option snake (moveSnake [] ex_walled) = Some [\<lparr>px = 10, py = 10\<rparr>]"
proof -
  have c: "collides ex_walled"
    by (simp add: ex_walled_def ex_init_def snake_eval)
  from terminal_tick_frame [OF c, of "[]"] c show ?thesis
    by (auto simp: ex_walled_def ex_init_def)
qed









lemma moveSnake_commits:
  assumes "\<not> collides s" and "moveSnake rs s = Some s'"
  shows "direction s' = nextDirection s"
proof (cases "eats s")
  case None
  with assms show ?thesis by (auto simp: moveSnake_no_food)
next
  case (Some i)
  then obtain h body where hb: "snake s = h # body"
    using eats_nonempty by blast
  from assms(2) show ?thesis
    by (auto simp: moveSnake_food [OF assms(1) Some hb] split: option.splits)
qed

lemma initialState_directions:
  "initialState rs0 = Some init \<Longrightarrow> direction init = RIGHT \<and> nextDirection init = RIGHT"
  by (auto simp: initialState_def split: option.splits)

text \<open>
  C9.  In every state reached from the initial state by ticks, key presses, direction
  clicks, pauses, resets, difficulty changes and colour changes, \<open>nextDirection\<close> is not
  the opposite of \<open>direction\<close>.
\<close>

theorem snake_direction_invariant:
  assumes "initialState rs0 = Some init" and "reachable init s"
  shows "nextDirection s \<noteq> opposites (direction s)"
proof -
  have "opposites (nextDirection s) \<noteq> direction s"
    using assms(2)
  proof (induction rule: reachable.induct)
    case r_init
    show ?case using initialState_directions [OF assms(1)] by simp
  next
    case (r_tick s rs s')
    then show ?case by (auto dest: moveSnake_directions)
  next
    case (r_key s key)
    then show ?case by (auto simp: handleKeyDown_def split: option.splits)
  next
    case (r_click s d)
    then show ?case by (auto simp: handleDirectionClick_def)
  next
    case (r_pause s)
    then show ?case by (simp add: togglePause_def)
  next
    case (r_reset s)
    show ?case using initialState_directions [OF assms(1)] by (simp add: resetGame_def)
  next
    case (r_difficulty s d)
    show ?case using initialState_directions [OF assms(1)]
      by (simp add: handleDifficultyChange_def)
  next
    case (r_color s c)
    then show ?case by simp
  qed
  then show ?thesis by (simp add: opposites_sym [of "nextDirection s"])
qed

theorem snake_direction_invariant_witness:
  "initialState [11/20, 1/2, 1/10] = Some ex_init \<and>
   reachable ex_init (handleKeyDown ''s'' ex_init) \<and>
   direction (handleKeyDown ''s'' ex_init) = RIGHT \<and>
   nextDirection (handleKeyDown ''s'' ex_init) = DOWN \<and>
   nextDirection (handleKeyDown ''s'' ex_init) \<noteq> opposites (direction (handleKeyDown ''s'' ex_init))"
proof -
  have i: "initialState [11/20, 1/2, 1/10] = Some ex_init"
    by (simp add: ex_init_def snake_eval)
  have r: "reachable ex_init (handleKeyDown ''s'' ex_init)"
    by (intro r_key r_init)
  have v: "direction (handleKeyDown ''s'' ex_init) = RIGHT"
    "nextDirection (handleKeyDown ''s'' ex_init) = DOWN"
    by (simp_all add: handleKeyDown_def keyDirections_def ex_init_def)
  from snake_direction_invariant [OF i r] i r v show ?thesis by simp
qed



text \<open>
  C5, as the code has it.  While the game is not over, a direction request (a click, a
  swipe, or a key of the table) is accepted exactly when its opposite is not the committed
  \<open>direction\<close>, and accepting it overwrites \<open>nextDirection\<close> and nothing else; once the game
  is over every request is dropped.  No request changes \<open>direction\<close>: the next tick that is
  not terminal moves the head by \<open>nextDirection\<close> and commits it.
\<close>

theorem snake_direction_input:
  "handleDirectionClick d s =
     (if \<not> isGameOver s \<and> opposites d \<noteq> direction s then s\<lparr>nextDirection := d\<rparr> else s) \<and>
   handleKeyDown key s =
     (case keyDirections key of None \<Rightarrow> s | Some d' \<Rightarrow> handleDirectionClick d' s) \<and>
   direction (handleDirectionClick d s) = direction s \<and>
   direction (handleKeyDown key s) = direction s \<and>
   (\<forall>rs s'. \<not> collides s \<and> moveSnake rs s = Some s' \<longrightarrow> direction s' = nextDirection s)"
proof -
  have tick: "\<forall>rs s'. \<not> collides s \<and> moveSnake rs s = Some s' \<longrightarrow>
      direction s' = nextDirection s"
    by (auto dest: moveSnake_commits)
  have handlers: "handleDirectionClick d s =
     (if \<not> isGameOver s \<and> opposites d \<noteq> direction s then s\<lparr>nextDirection := d\<rparr> else s) \<and>
   handleKeyDown key s =
     (case keyDirections key of None \<Rightarrow> s | Some d' \<Rightarrow> handleDirectionClick d' s) \<and>
   direction (handleDirectionClick d s) = direction s \<and>
   direction (handleKeyDown key s) = direction s"
    by (simp add: handleDirectionClick_def handleKeyDown_def split: option.splits)
  from handlers tick show ?thesis by blast
qed

theorem snake_direction_input_witness:
  "direction ex_init = RIGHT \<and> nextDirection ex_init = RIGHT \<and>
   handleDirectionClick LEFT ex_init = ex_init \<and>
   handleDirectionClick DOWN ex_init = ex_init\<lparr>nextDirection := DOWN\<rparr> \<and>
   handleKeyDown ''ArrowLeft'' ex_init = ex_init \<and>
   handleKeyDown ''ArrowDown'' ex_init = ex_init\<lparr>nextDirection := DOWN\<rparr> \<and>
   direction (handleDirectionClick DOWN ex_init) = RIGHT \<and>
   \<not> collides (handleDirectionClick DOWN ex_init) \<and>
   map_option direction (moveSnake [] (handleDirectionClick DOWN ex_init)) = Some DOWN"
proof -
  have c: "\<not> collides (handleDirectionClick DOWN ex_init)"
    by (simp add: handleDirectionClick_def ex_init_def snake_eval)
  obtain s1 where s1: "moveSnake [] (handleDirectionClick DOWN ex_init) = Some s1"
    by (simp add: handleDirectionClick_def ex_init_def snake_eval)
  have n: "nextDirection (handleDirectionClick DOWN ex_init) = DOWN"
    by (simp add: handleDirectionClick_def ex_init_def)
  from snake_direction_input [of DOWN "handleDirectionClick DOWN ex_init" "''ArrowDown''"] c s1 n
  have t: "direction s1 = DOWN" by simp
  from snake_direction_input [of LEFT ex_init "''ArrowLeft''"]
    snake_direction_input [of DOWN ex_init "''ArrowDown''"]
  have "direction ex_init = RIGHT \<and> nextDirection ex_init = RIGHT \<and>
   handleDirectionClick LEFT ex_init = ex_init \<and>
   handleDirectionClick DOWN ex_init = ex_init\<lparr>nextDirection := DOWN\<rparr> \<and>
   handleKeyDown ''ArrowLeft'' ex_init = ex_init \<and>
   handleKeyDown ''ArrowDown'' ex_init = ex_init\<lparr>nextDirection := DOWN\<rparr> \<and>
   direction (handleDirectionClick DOWN ex_init) = RIGHT"
    by (simp add: ex_init_def keyDirections_def)
  with c s1 t show ?thesis by simp
qed

text \<open>
  The claim as it is written fails in a game that is over: \<open>DOWN\<close> is not the opposite of
  the committed \<open>RIGHT\<close>, and the request is dropped all the same.
\<close>

theorem snake_direction_input_counterexample:
  "direction ex_over = RIGHT \<and> opposites DOWN \<noteq> direction ex_over \<and>
   nextDirection (handleDirectionClick DOWN ex_over) = RIGHT \<and>
   nextDirection (handleKeyDown ''ArrowDown'' ex_over) = RIGHT"
  by (simp add: ex_over_def ex_init_def handleDirectionClick_def handleKeyDown_def)

section \<open>Flappy: the claims\<close>

lemmas flappy_consts =
  CANVAS_WIDTH_def CANVAS_HEIGHT_def BIRD_WIDTH_def BIRD_HEIGHT_def PIPE_WIDTH_def
  PIPE_GAP_def GRAVITY_def FLAP_STRENGTH_def PIPE_SPEED_def

lemma update_bird:
  "isPlaying s \<Longrightarrow> \<not> f_isGameOver s \<Longrightarrow>
   bird (fst (update time random (s, lastPipe))) =
     updateBird (DIFFICULTY_SETTINGS (f_difficulty s)) (bird s)"
  by (simp add: update_def Let_def split: prod.splits)

lemma rotation_zero: "min (pi / 2) (max (- pi / 4) (0::real)) = 0"
proof -
  have "max (- pi / 4) (0::real) = 0"
    by (rule max_absorb2) simp
  moreover have "min (pi / 2) (0::real) = 0"
    by (rule min_absorb2) simp
  ultimately show ?thesis by simp
qed

text \<open>
  When the state that \<open>handleClick\<close> reads is playing and not over, as it is for a click
  on the canvas during play, a flap sets the velocity of the bird to \<open>FLAP_STRENGTH\<close>,
  which is -7, whatever the velocity was, and changes nothing else: the position of the
  bird, its rotation, the pipes, the scores and the spawn timer are those of before.
\<close>

lemma handleClick_playing:
  assumes "isPlaying state" and "\<not> f_isGameOver state"
  shows "handleClick time state (prev, lastPipe) =
           (prev\<lparr>bird := (bird prev)\<lparr>velocity := FLAP_STRENGTH\<rparr>\<rparr>, lastPipe) \<and>
         velocity (bird (fst (handleClick time state (prev, lastPipe)))) = - 7 \<and>
         bird_y (bird (fst (handleClick time state (prev, lastPipe)))) = bird_y (bird prev)"
  using assms by (simp add: handleClick_def FLAP_STRENGTH_def)

text \<open>
  The space bar does not take that path: its listener runs the \<open>handleClick\<close> of the first
  render, which sees a game that is not playing and starts a new one before it flaps,
  whatever the state of the game.
\<close>

lemma f_handleKeyDown_restarts:
  "f_handleKeyDown ''Space'' time (prev, lastPipe) =
     (f_initialState\<lparr>isPlaying := True, f_highScore := f_highScore prev,
                     f_difficulty := f_difficulty prev,
                     bird := initialBird\<lparr>velocity := FLAP_STRENGTH\<rparr>\<rparr>, time)"
  by (simp add: f_handleKeyDown_def handleClick_def startGame_def f_initialState_def)

text \<open>
  C7.  A flap sets the velocity to \<open>FLAP_STRENGTH\<close> on both paths, but only the click
  leaves the bird where it is.  In a game that is playing and not over, with the bird at
  \<open>y = 400\<close> falling at 3, a click leaves the bird at 400 with velocity -7; the space bar
  gives velocity -7 too, and puts the bird back at 320, the middle of the canvas, with
  the pipes gone and the score, which was 2, at 0.
\<close>

theorem space_flap_resets_bird:
  "isPlaying ex_flight \<and> \<not> f_isGameOver ex_flight \<and>
   bird_y (bird ex_flight) = 400 \<and> velocity (bird ex_flight) = 3 \<and>
   f_score ex_flight = 2 \<and>
   velocity (bird (fst (handleClick 1000 ex_flight (ex_flight, 900)))) = - 7 \<and>
   bird_y (bird (fst (handleClick 1000 ex_flight (ex_flight, 900)))) = 400 \<and>
   velocity (bird (fst (f_handleKeyDown ''Space'' 1000 (ex_flight, 900)))) = - 7 \<and>
   bird_y (bird (fst (f_handleKeyDown ''Space'' 1000 (ex_flight, 900)))) = 320 \<and>
   pipes (fst (f_handleKeyDown ''Space'' 1000 (ex_flight, 900))) = [] \<and>
   f_score (fst (f_handleKeyDown ''Space'' 1000 (ex_flight, 900))) = 0"
  by (simp add: f_handleKeyDown_restarts handleClick_def ex_flight_def f_initialState_def
      initialBird_def CANVAS_HEIGHT_def FLAP_STRENGTH_def)

text \<open>
  C2, as the code has it.  In a game that is playing and not over, in normal difficulty,
  with the bird at \<open>y = 320\<close> and velocity 0, one frame of \<open>update\<close> leaves the bird at
  \<open>y = 320\<close> with velocity 0.4 and rotation 0: the new position and the new rotation are
  both computed from the velocity of before the frame.
\<close>

theorem flappy_first_frame:
  assumes "isPlaying s" and "\<not> f_isGameOver s" and "f_difficulty s = Normal"
    and "bird_y (bird s) = 320" and "velocity (bird s) = 0"
  shows "bird (fst (update time random (s, lastPipe))) =
           \<lparr>bird_y = 320, velocity = 0.4, rotation = 0\<rparr>"
  using assms
  by (simp add: update_bird updateBird_def GRAVITY_def rotation_zero)

theorem flappy_first_frame_witness:
  "isPlaying (fst ex_started) \<and> \<not> f_isGameOver (fst ex_started) \<and>
   f_difficulty (fst ex_started) = Normal \<and> bird (fst ex_started) = initialBird \<and>
   bird_y initialBird = 320 \<and> velocity initialBird = 0 \<and>
   bird (fst (update 16 0 (fst ex_started, snd ex_started))) =
     \<lparr>bird_y = 320, velocity = 0.4, rotation = 0\<rparr>"
proof -
  have h: "isPlaying (fst ex_started)" "\<not> f_isGameOver (fst ex_started)"
    "f_difficulty (fst ex_started) = Normal"
    "bird_y (bird (fst ex_started)) = 320" "velocity (bird (fst ex_started)) = 0"
    by (simp_all add: ex_started_def startGame_def f_initialState_def initialBird_def
        CANVAS_HEIGHT_def)
  have b: "bird (fst ex_started) = initialBird" "bird_y initialBird = 320"
    "velocity initialBird = 0"
    by (simp_all add: ex_started_def startGame_def f_initialState_def initialBird_def
        CANVAS_HEIGHT_def)
  from flappy_first_frame [OF h, of 16 0 "snd ex_started"] h b show ?thesis
    by simp
qed

text \<open>
  The claim as it is written fails on the frame after the start: the rotation is 0, at
  distance 0.04 from the 0.04 of the claim, and the bird is not the one that the order of
  step 1 gives, which is at \<open>y = 320.4\<close> with rotation 0.04.
\<close>

theorem flappy_first_frame_counterexample:
  "rotation (bird (fst (update 16 0 ex_started))) = 0 \<and>
   \<not> \<bar>rotation (bird (fst (update 16 0 ex_started))) - 0.04\<bar> < 0.04 \<and>
   spec_integrate (DIFFICULTY_SETTINGS Normal) initialBird =
     \<lparr>bird_y = 320.4, velocity = 0.4, rotation = 0.04\<rparr> \<and>
   bird (fst (update 16 0 ex_started)) \<noteq>
     spec_integrate (DIFFICULTY_SETTINGS Normal) initialBird"
proof -
  have u: "bird (fst (update 16 0 ex_started)) = \<lparr>bird_y = 320, velocity = 0.4, rotation = 0\<rparr>"
    by (simp add: ex_started_def startGame_def f_initialState_def initialBird_def
        CANVAS_HEIGHT_def update_bird updateBird_def GRAVITY_def rotation_zero)
  have "max (- pi / 4) (1 / 25 :: real) = 1 / 25"
    by (rule max_absorb2) (use pi_ge_two in linarith)
  moreover have "min (pi / 2) (1 / 25 :: real) = 1 / 25"
    by (rule min_absorb2) (use pi_ge_two in linarith)
  ultimately have "min (pi / 2) (max (- pi / 4) (1 / 25 :: real)) = 1 / 25"
    by simp
  then have sp: "spec_integrate (DIFFICULTY_SETTINGS Normal) initialBird =
     \<lparr>bird_y = 320.4, velocity = 0.4, rotation = 0.04\<rparr>"
    by (simp add: spec_integrate_def initialBird_def CANVAS_HEIGHT_def GRAVITY_def Let_def)
  show ?thesis
    unfolding u sp by simp
qed

text \<open>
  C8.  \<open>createPipe\<close> takes the constant \<open>PIPE_GAP\<close>, 160, where \<open>update\<close> takes the gap of the
  difficulty.  With the draw 15/16 the new pipe is at \<open>x = CANVAS_WIDTH\<close> and its top
  height is 406.25; in easy difficulty, where the gap is 200, that is above the bound
  \<open>CANVAS_HEIGHT - gap - 50 = 390\<close> of the claim.
\<close>

theorem createPipe_easy_out_of_range:
  "0 \<le> (15/16 :: real) \<and> (15/16 :: real) < 1 \<and>
   pipe_x (createPipe (15/16)) = CANVAS_WIDTH \<and>
   topHeight (createPipe (15/16)) = 406.25 \<and>
   CANVAS_HEIGHT - pipeGap (DIFFICULTY_SETTINGS Easy) - 50 = 390 \<and>
   \<not> topHeight (createPipe (15/16)) \<le> CANVAS_HEIGHT - pipeGap (DIFFICULTY_SETTINGS Easy) - 50"
  by (simp add: createPipe_def flappy_consts)

text \<open>
  What holds of \<open>createPipe\<close> in every difficulty: for a draw of \<open>[0, 1)\<close> the top height
  is in \<open>[50, CANVAS_HEIGHT - PIPE_GAP - 50)\<close>, which lies inside the interval of the
  difficulty when the gap of the difficulty is at most \<open>PIPE_GAP\<close>: in normal and in hard.
\<close>

lemma createPipe_range:
  assumes "0 \<le> random" and "random < 1"
  shows "pipe_x (createPipe random) = CANVAS_WIDTH \<and> \<not> passed (createPipe random) \<and>
         50 \<le> topHeight (createPipe random) \<and>
         topHeight (createPipe random) < CANVAS_HEIGHT - PIPE_GAP - 50"
  using assms by (simp add: createPipe_def flappy_consts)

lemma createPipe_normal_hard:
  assumes "0 \<le> random" and "random < 1" and "d = Normal \<or> d = Hard"
  shows "50 \<le> topHeight (createPipe random) \<and>
         topHeight (createPipe random) \<le> CANVAS_HEIGHT - pipeGap (DIFFICULTY_SETTINGS d) - 50"
  using createPipe_range [OF assms(1,2)] assms(3) by (auto simp: flappy_consts)

end
